theory Spec2Isabelle
  imports Complex_Main "HOL-Library.Word"
begin

unbundle bit_operations_syntax

section \<open>The ARP listener: proto_arp.c\<close>

type_synonym byte = "8 word"

subsection \<open>The layout of \<^verbatim>\<open>struct arphdr_ether_ipv4\<close>\<close>

text \<open>
  \<^verbatim>\<open>arp_socket_recv\<close> compares the capture length with
  \<^verbatim>\<open>sizeof(*ether) + sizeof(*arp)\<close> and reads four members of the struct through a
  pointer into the frame. The size and the member offsets follow from the declaration
  under the usual C layout rule: every member is placed at the next multiple of its
  alignment, and the struct is padded to a multiple of its strictest alignment. The
  members are \<^verbatim>\<open>uint16_t\<close> (size and alignment 2), \<^verbatim>\<open>uint8_t\<close> and arrays of it.
\<close>

datatype ctype = U8 | U16 | Arr ctype nat

fun sizeof :: "ctype \<Rightarrow> nat" where
  "sizeof U8 = 1"
| "sizeof U16 = 2"
| "sizeof (Arr t n) = n * sizeof t"

fun alignof :: "ctype \<Rightarrow> nat" where
  "alignof U8 = 1"
| "alignof U16 = 2"
| "alignof (Arr t n) = alignof t"

definition align_up :: "nat \<Rightarrow> nat \<Rightarrow> nat" where
  "align_up n a = ((n + a - 1) div a) * a"

fun offsets_from :: "nat \<Rightarrow> ctype list \<Rightarrow> nat list" where
  "offsets_from off [] = []"
| "offsets_from off (t # ts) =
     (let pos = align_up off (alignof t) in pos # offsets_from (pos + sizeof t) ts)"

fun end_from :: "nat \<Rightarrow> ctype list \<Rightarrow> nat" where
  "end_from off [] = off"
| "end_from off (t # ts) = end_from (align_up off (alignof t) + sizeof t) ts"

definition struct_size :: "ctype list \<Rightarrow> nat" where
  "struct_size ts = align_up (end_from 0 ts) (fold max (map alignof ts) 1)"

text \<open>
  The members of \<^verbatim>\<open>struct arphdr_ether_ipv4\<close> in declaration order: \<^verbatim>\<open>ar_hrd\<close>,
  \<^verbatim>\<open>ar_pro\<close>, \<^verbatim>\<open>ar_hln\<close>, \<^verbatim>\<open>ar_pln\<close>, \<^verbatim>\<open>ar_op\<close> (declared \<^verbatim>\<open>uint8_t\<close>), \<^verbatim>\<open>ar_sha\<close>,
  \<^verbatim>\<open>ar_spa\<close>, \<^verbatim>\<open>ar_tha\<close>, \<^verbatim>\<open>ar_tpa\<close>.
\<close>

definition arphdr_ether_ipv4 :: "ctype list" where
  "arphdr_ether_ipv4 = [U16, U16, U8, U8, U8, Arr U8 6, Arr U8 4, Arr U8 6, Arr U8 4]"

definition sizeof_arphdr_ether_ipv4 :: nat where
  "sizeof_arphdr_ether_ipv4 = struct_size arphdr_ether_ipv4"

definition arp_member_offset :: "nat \<Rightarrow> nat" where
  "arp_member_offset i = offsets_from 0 arphdr_ether_ipv4 ! i"

text \<open>Constants of the system headers \<^verbatim>\<open>net/if_arp.h\<close> and \<^verbatim>\<open>net/ethernet.h\<close>.\<close>

definition ARPHRD_ETHER :: "16 word" where
  "ARPHRD_ETHER = 1"

definition ETHER_ADDR_LEN :: nat where
  "ETHER_ADDR_LEN = 6"

subsection \<open>Reading the frame\<close>

text \<open>
  \<^verbatim>\<open>ntohs(arp->ar_hrd)\<close>: the two bytes of the member, first byte most significant,
  whatever the byte order of the host.
\<close>

definition ntohs_at :: "byte list \<Rightarrow> nat \<Rightarrow> 16 word" where
  "ntohs_at frame off = push_bit 8 (ucast (frame ! off)) OR ucast (frame ! (off + 1))"

text \<open>
  \<^verbatim>\<open>arp = data + sizeof(*ether)\<close>. The size of \<^verbatim>\<open>struct ethernet_header\<close> (declared in
  \<^verbatim>\<open>freeradius-devel/pcap.h\<close>) is the parameter \<open>ether_size\<close> of the model.
\<close>

definition ar_hrd :: "nat \<Rightarrow> byte list \<Rightarrow> 16 word" where
  "ar_hrd ether_size frame = ntohs_at frame (ether_size + arp_member_offset 0)"

definition ar_pro :: "nat \<Rightarrow> byte list \<Rightarrow> 16 word" where
  "ar_pro ether_size frame = ntohs_at frame (ether_size + arp_member_offset 1)"

definition ar_hln :: "nat \<Rightarrow> byte list \<Rightarrow> byte" where
  "ar_hln ether_size frame = frame ! (ether_size + arp_member_offset 2)"

definition ar_pln :: "nat \<Rightarrow> byte list \<Rightarrow> byte" where
  "ar_pln ether_size frame = frame ! (ether_size + arp_member_offset 3)"

subsection \<open>\<^verbatim>\<open>arp_socket_recv\<close>\<close>

text \<open>
  The fields of \<^verbatim>\<open>RADIUS_PACKET\<close> the listener touches; \<^verbatim>\<open>talloc_zero\<close> clears all
  others. \<open>data\<close> is the bytes the pointer \<^verbatim>\<open>data\<close> gives access to: a \<^verbatim>\<open>NULL\<close> pointer
  is the empty list, whatever \<open>data_len\<close> says. \<open>vps\<close> is the list of value pairs of
  the packet.
\<close>

record 'vp RADIUS_PACKET =
  dst_port :: "16 word"
  data_len :: nat
  data :: "byte list"
  vps :: "'vp list"

text \<open>What one call does besides returning, in program order.\<close>

datatype 'vp recv_effect =
  Log_Error int
| Talloc_Zero
| Talloc_Memdup
| Log_Debug
| Request_Receive "'vp RADIUS_PACKET"
| Rad_Free

text \<open>
  The environment of one call: \<open>nxt\<close> is what \<^verbatim>\<open>pcap_next_ex\<close> delivers, its return
  code and the captured bytes (\<^verbatim>\<open>header->caplen\<close> is their number); \<open>talloc_ok\<close> tells
  whether \<^verbatim>\<open>talloc_zero\<close> returns a packet and \<open>memdup_ok\<close> whether \<^verbatim>\<open>talloc_memdup\<close>
  returns the copy; \<open>request_receive\<close> is the server core's verdict on the packet
  (non-zero is \<open>True\<close>). The result of \<^verbatim>\<open>talloc_memdup\<close> is stored and never tested:
  when the copy fails, the packet goes on to \<^verbatim>\<open>request_receive\<close> with \<^verbatim>\<open>data\<close> \<^verbatim>\<open>NULL\<close>
  and \<^verbatim>\<open>data_len\<close> the capture length.
\<close>

definition arp_socket_recv ::
  "nat \<Rightarrow> int \<times> byte list \<Rightarrow> bool \<Rightarrow> bool \<Rightarrow> ('vp RADIUS_PACKET \<Rightarrow> bool) \<Rightarrow>
     int \<times> 'vp recv_effect list" where
  "arp_socket_recv ether_size nxt talloc_ok memdup_ok request_receive =
     (case nxt of (rcode, frame) \<Rightarrow>
        if rcode = 0 then (0, [])
        else if rcode < 0 then (0, [Log_Error rcode])
        else if length frame < ether_size + sizeof_arphdr_ether_ipv4 then (0, [])
        else if ar_hrd ether_size frame \<noteq> ARPHRD_ETHER then (0, [])
        else if ar_pro ether_size frame \<noteq> 0x0800 then (0, [])
        else if unat (ar_hln ether_size frame) \<noteq> ETHER_ADDR_LEN then (0, [])
        else if ar_pln ether_size frame \<noteq> 4 then (0, [])
        else if \<not> talloc_ok then (0, [])
        else
          (let packet = \<lparr>dst_port = 1, data_len = length frame,
                 data = (if memdup_ok then frame else []), vps = []\<rparr>
           in if \<not> request_receive packet
              then (0, [Talloc_Zero, Talloc_Memdup, Log_Debug, Request_Receive packet, Rad_Free])
              else (1, [Talloc_Zero, Talloc_Memdup, Log_Debug, Request_Receive packet])))"

text \<open>
  A frame for the examples: 14 bytes of Ethernet header (\<open>ether_size = 14\<close>) and an ARP
  request for Ethernet and IPv4.
\<close>

definition arp_request_frame :: "byte list" where
  "arp_request_frame =
     replicate 14 0 @ [0, 1, 8, 0, 6, 4, 0, 1] @ replicate 6 0xAA @ [10, 0, 0, 1]
       @ replicate 6 0 @ [10, 0, 0, 2]"

subsection \<open>\<^verbatim>\<open>arp_socket_decode\<close>\<close>









subsection \<open>\<^verbatim>\<open>arp_socket_parse\<close>\<close>

text \<open>Constants of the system headers, and the fields of \<^verbatim>\<open>RADCLIENT\<close> the function sets.\<close>

definition AF_INET :: int where
  "AF_INET = 2"

definition INADDR_NONE :: "32 word" where
  "INADDR_NONE = 0xffffffff"

record RADCLIENT =
  ipaddr_af :: int
  ipaddr_s_addr :: "32 word"
  prefix :: int
  longname :: "string option"
  shortname :: "string option"
  secret :: "string option"
  nas_type :: "string option"

text \<open>\<^verbatim>\<open>memset(client, 0, sizeof(*client))\<close>.\<close>

definition zero_client :: RADCLIENT where
  "zero_client = \<lparr>ipaddr_af = 0, ipaddr_s_addr = 0, prefix = 0, longname = None,
     shortname = None, secret = None, nas_type = None\<rparr>"

text \<open>
  \<^verbatim>\<open>arp_socket_t\<close> and the fields of \<^verbatim>\<open>rad_listen_t\<close> the function touches
  (\<open>listen_data\<close> is the listener's \<^verbatim>\<open>data\<close>, the socket). A \<^verbatim>\<open>NULL\<close> pointer is \<open>None\<close>.
\<close>

record 'pcap arp_socket_t =
  interface :: "string option"
  pcap :: "'pcap option"
  counter :: "64 word"
  client :: RADCLIENT

record 'pcap rad_listen_t =
  listen_data :: "'pcap arp_socket_t"
  fd :: int
  nodup :: bool

text \<open>The messages of \<^verbatim>\<open>cf_log_err_cs\<close>, and what one call does, in program order.\<close>

datatype parse_error =
  Interface_Required
| No_Interface_Name
| Failed_Creating_Pcap
| Failed_Opening_Interface
| Failed_Setting_Filter

datatype parse_effect =
  Cf_Log_Err parse_error
| Fr_Pcap_Init string
| Fr_Suid_Up
| Fr_Pcap_Open
| Fr_Suid_Down
| Fr_Pcap_Apply_Filter string
| Talloc_Strdup string

text \<open>
  The functions of the server core the parser calls (none of them is in the file) and
  the global \<^verbatim>\<open>check_config\<close>. \<^verbatim>\<open>fr_pcap_open\<close> returns its result and the handle as
  it left it; \<^verbatim>\<open>pcap_fd\<close> reads \<^verbatim>\<open>sock->pcap->fd\<close>.
\<close>

record ('cs, 'cp, 'pcap) arp_parse_env =
  cf_pair_find :: "'cs \<Rightarrow> string \<Rightarrow> 'cp option"
  cf_pair_value :: "'cp \<Rightarrow> string option"
  fr_pcap_init :: "'cs \<Rightarrow> string \<Rightarrow> 'pcap option"
  fr_pcap_open :: "'pcap \<Rightarrow> int \<times> 'pcap"
  fr_pcap_apply_filter :: "'pcap \<Rightarrow> string \<Rightarrow> int"
  pcap_fd :: "'pcap \<Rightarrow> int"
  check_config :: bool

text \<open>The result is the return value, the listener as the call left it, and the effects.\<close>

definition arp_socket_parse ::
  "('cs, 'cp, 'pcap) arp_parse_env \<Rightarrow> 'cs \<Rightarrow> 'pcap rad_listen_t \<Rightarrow>
     int \<times> 'pcap rad_listen_t \<times> parse_effect list" where
  "arp_socket_parse env cs this =
     (let sock = listen_data this in
      case cf_pair_find env cs ''interface'' of
        None \<Rightarrow> (- 1, this, [Cf_Log_Err Interface_Required])
      | Some cp \<Rightarrow>
         (case cf_pair_value env cp of
            None \<Rightarrow> (- 1, this, [Cf_Log_Err No_Interface_Name])
          | Some v \<Rightarrow>
             (case fr_pcap_init env cs v of
                None \<Rightarrow>
                  (- 1, this\<lparr>listen_data := sock\<lparr>interface := Some v, pcap := None\<rparr>\<rparr>,
                   [Fr_Pcap_Init v, Cf_Log_Err Failed_Creating_Pcap])
              | Some h \<Rightarrow>
                  if check_config env
                  then (0, this\<lparr>listen_data := sock\<lparr>interface := Some v, pcap := Some h\<rparr>\<rparr>,
                        [Fr_Pcap_Init v])
                  else
                    (case fr_pcap_open env h of
                       (rc, h') \<Rightarrow>
                         if rc < 0
                         then (- 1,
                               this\<lparr>listen_data := sock\<lparr>interface := Some v, pcap := Some h'\<rparr>\<rparr>,
                               [Fr_Pcap_Init v, Fr_Suid_Up, Fr_Pcap_Open,
                                Cf_Log_Err Failed_Opening_Interface])
                         else if fr_pcap_apply_filter env h' ''arp'' < 0
                         then (- 1,
                               this\<lparr>listen_data := sock\<lparr>interface := Some v, pcap := Some h'\<rparr>\<rparr>,
                               [Fr_Pcap_Init v, Fr_Suid_Up, Fr_Pcap_Open, Fr_Suid_Down,
                                Fr_Pcap_Apply_Filter ''arp'',
                                Cf_Log_Err Failed_Setting_Filter])
                         else (0,
                               this\<lparr>listen_data := sock\<lparr>interface := Some v, pcap := Some h',
                                      client := zero_client\<lparr>ipaddr_af := AF_INET,
                                        ipaddr_s_addr := INADDR_NONE, prefix := 0,
                                        longname := Some v, shortname := Some v,
                                        secret := Some v, nas_type := Some ''none''\<rparr>\<rparr>,
                                    fd := pcap_fd env h', nodup := True\<rparr>,
                               [Fr_Pcap_Init v, Fr_Suid_Up, Fr_Pcap_Open, Fr_Suid_Down,
                                Fr_Pcap_Apply_Filter ''arp'', Talloc_Strdup ''none''])))))"

text \<open>
  An environment for the examples: a configuration section is a list of pairs of a name
  and an optional string, and every pcap call succeeds.
\<close>

definition example_parse_env ::
  "bool \<Rightarrow> ((string \<times> string option) list, string \<times> string option, string) arp_parse_env" where
  "example_parse_env chk =
     \<lparr>cf_pair_find = (\<lambda>cs name. find (\<lambda>cp. fst cp = name) cs),
      cf_pair_value = snd,
      fr_pcap_init = (\<lambda>cs name. Some name),
      fr_pcap_open = (\<lambda>h. (0, h)),
      fr_pcap_apply_filter = (\<lambda>h flt. 0),
      pcap_fd = (\<lambda>h. 3),
      check_config = chk\<rparr>"

definition example_listener :: "string rad_listen_t" where
  "example_listener =
     \<lparr>listen_data = \<lparr>interface = None, pcap = None, counter = 0, client = zero_client\<rparr>,
      fd = - 1, nodup = False\<rparr>"

section \<open>The sniffer's statistics: radsniff.h\<close>

text \<open>
  \<^verbatim>\<open>radsniff.h\<close> declares the constants and the structures of the sniffer; the functions
  that work on them are not in the file. The records follow the declarations:
  \<^verbatim>\<open>uint64_t\<close> is \<open>64 word\<close>, \<^verbatim>\<open>double\<close> and \<^verbatim>\<open>long double\<close> are idealised as
  \<open>real\<close>, an array indexed by the packet code (\<^verbatim>\<open>PW_CODE_MAX\<close> entries) is a function
  of the code, and the array \<^verbatim>\<open>rt\<close> is a list.
\<close>

definition RS_DEFAULT_TIMEOUT :: int where
  "RS_DEFAULT_TIMEOUT = 6"

definition RS_FORCE_YIELD :: nat where
  "RS_FORCE_YIELD = 100"

definition RS_RETRANSMIT_MAX :: nat where
  "RS_RETRANSMIT_MAX = 5"

text \<open>The member \<^verbatim>\<open>interval\<close> of \<^verbatim>\<open>struct rs_latency\<close>.\<close>

record rs_interval =
  linked :: "64 word"
  unlinked :: "64 word"
  reused :: "64 word"
  rt :: "64 word list"
  lost :: "64 word"
  latency_total :: real
  latency_average :: real
  latency_high :: real
  latency_low :: real

record rs_latency_t =
  intervals :: int
  latency_cma :: real
  latency_cma_count :: "64 word"
  interval :: rs_interval

record rs_stats_t =
  stats_intervals :: int
  gauge :: "nat \<Rightarrow> 64 word"
  exchange :: "nat \<Rightarrow> rs_latency_t"
  forward :: "nat \<Rightarrow> rs_latency_t"
  quiet :: real

text \<open>
  Modelled from the spec: the CapturedPacket of the data model (\<^verbatim>\<open>RADIUS_PACKET\<close> as the
  sniffer uses it is not declared in the sources): raw bytes, capture timestamp in
  seconds, source, protocol code, protocol identifier and the decoded client and server
  endpoints (address and port).
\<close>

record captured_packet =
  raw :: "byte list"
  timestamp :: real
  source :: nat
  code :: nat
  ident :: nat
  endpoints :: "(nat \<times> nat) \<times> (nat \<times> nat)"

text \<open>
  Modelled from the spec: the correlation key, which the glossary defines as the
  endpoint pair and the protocol transaction identifier.
\<close>

type_synonym correlation_key = "((nat \<times> nat) \<times> (nat \<times> nat)) \<times> nat"

text \<open>
  \<^verbatim>\<open>struct rs_request\<close>. The pointers are what they stand for: \<open>event\<close> is the deadline
  of the armed expiry timer (\<open>None\<close> when there is none), \<open>pcap_in\<close> the source the
  request arrived on, \<open>req_packet\<close> the request, \<open>req_linked\<close> the packet that closed
  it, \<open>stats_req\<close> and \<open>stats_rsp\<close> the codes whose latency entries the request refers
  to.
\<close>

record rs_request_t =
  req_id :: "32 word"
  event :: "real option"
  pcap_in :: nat
  req_packet :: captured_packet
  req_linked :: "captured_packet option"
  rt_req :: "64 word"
  rt_rsp :: "64 word"
  stats_req :: nat
  stats_rsp :: "nat option"
  forced_cleanup :: bool

section \<open>The correlator and the statistics aggregator, from the specification\<close>

text \<open>
  \<^verbatim>\<open>radsniff.c\<close>, which classifies the packets and keeps the statistics, is not among the
  sources. The definitions of this section are written from sections 3 and 4 of the
  specification.
\<close>

text \<open>
  Modelled from the spec: the part of Config the correlator reads (the code is missing):
  the response timeout in seconds, which codes are request-typed, and the discriminating
  fingerprint of a packet (identifier and authenticator or content).
\<close>

record rs_conf =
  timeout :: int
  is_request :: "nat \<Rightarrow> bool"
  fingerprint :: "captured_packet \<Rightarrow> byte list"

text \<open>
  Modelled from the spec: the state the event loop owns (the code is missing): the
  RequestTable, the statistics and the counter of request ids.
\<close>

record rs_state =
  request_table :: "correlation_key \<rightharpoonup> rs_request_t"
  stats :: rs_stats_t
  next_id :: "32 word"

text \<open>
  Modelled from the spec: the two directions of LatencyStats and the outcomes
  \<open>on_classification\<close> carries (section 4.5); a retransmission carries the retransmit
  count of the request.
\<close>

datatype direction = Exchange | Forward

datatype outcome = Linked real | Unlinked | Reused | Retransmit "64 word" | Lost

text \<open>
  Modelled from the spec: what the event loop delivers (sections 4.2 and 4.4): a packet,
  the expiry timer of a request firing at a time, the eviction of a request by policy,
  and the emission tick.
\<close>

datatype rs_event =
  Packet captured_packet
| Timer_Fired correlation_key real
| Evict correlation_key
| Tick

text \<open>
  Modelled from the spec: the histogram bucket of a retransmit count (the code that
  writes \<^verbatim>\<open>rt\<close> is missing): "a histogram bucket index is min(retransmit_count, MAX)".
\<close>

definition rt_bucket :: "64 word \<Rightarrow> nat" where
  "rt_bucket retransmit_count = min (unat retransmit_count) RS_RETRANSMIT_MAX"

text \<open>
  Modelled from the spec: the zero values of the interval-scoped fields (the reset code is
  missing); \<^verbatim>\<open>rt\<close> has the \<^verbatim>\<open>RS_RETRANSMIT_MAX + 1\<close> entries of its declaration.
\<close>

definition rs_interval_zero :: rs_interval where
  "rs_interval_zero =
     \<lparr>linked = 0, unlinked = 0, reused = 0, rt = replicate (RS_RETRANSMIT_MAX + 1) 0,
      lost = 0, latency_total = 0, latency_average = 0, latency_high = 0, latency_low = 0\<rparr>"

text \<open>Modelled from the spec: a LatencyStats before the first event (the code is missing).\<close>

definition rs_latency_zero :: rs_latency_t where
  "rs_latency_zero =
     \<lparr>intervals = 0, latency_cma = 0, latency_cma_count = 0, interval = rs_interval_zero\<rparr>"

text \<open>
  Modelled from the spec: the update of one LatencyStats by an outcome (section 4.5; the
  code is missing). A link counts the pair, adds the latency to the interval sum, sets
  the interval average to the sum over the count, keeps the running maximum and minimum
  of the interval (the first sample of an interval sets both) and applies the rule of the
  cumulative moving average, \<open>cma' = cma + (latency - cma) / (count + 1)\<close> and
  \<open>count' = count + 1\<close>. A retransmission bumps the bucket of its count.
\<close>

definition latency_update :: "outcome \<Rightarrow> rs_latency_t \<Rightarrow> rs_latency_t" where
  "latency_update out s =
     (let iv = interval s in
      case out of
        Linked latency \<Rightarrow>
          (let n = linked iv + 1; total = latency_total iv + latency in
           s\<lparr>latency_cma :=
                latency_cma s
                  + (latency - latency_cma s) / real (unat (latency_cma_count s + 1)),
              latency_cma_count := latency_cma_count s + 1,
              interval := iv\<lparr>linked := n, latency_total := total,
                latency_average := total / real (unat n),
                latency_high := (if linked iv = 0 then latency else max (latency_high iv) latency),
                latency_low := (if linked iv = 0 then latency else min (latency_low iv) latency)\<rparr>\<rparr>)
      | Unlinked \<Rightarrow> s\<lparr>interval := iv\<lparr>unlinked := unlinked iv + 1\<rparr>\<rparr>
      | Reused \<Rightarrow> s\<lparr>interval := iv\<lparr>reused := reused iv + 1\<rparr>\<rparr>
      | Retransmit retransmit_count \<Rightarrow>
          s\<lparr>interval := iv\<lparr>rt := (rt iv)[rt_bucket retransmit_count :=
                 rt iv ! rt_bucket retransmit_count + 1]\<rparr>\<rparr>
      | Lost \<Rightarrow> s\<lparr>interval := iv\<lparr>lost := lost iv + 1\<rparr>\<rparr>)"

text \<open>
  Modelled from the spec: \<open>on_classification(code, direction, outcome)\<close> of the
  StatsAggregator (the code is missing) updates the LatencyStats of that code and
  direction.
\<close>

definition on_classification :: "nat \<Rightarrow> direction \<Rightarrow> outcome \<Rightarrow> rs_stats_t \<Rightarrow> rs_stats_t" where
  "on_classification c dir out st =
     (case dir of
        Exchange \<Rightarrow> st\<lparr>exchange := (exchange st)(c := latency_update out (exchange st c))\<rparr>
      | Forward \<Rightarrow> st\<lparr>forward := (forward st)(c := latency_update out (forward st c))\<rparr>)"

text \<open>
  Modelled from the spec: the reset of one LatencyStats at a tick (the code is missing):
  the interval-scoped fields return to their zero values, the cumulative fields persist.
\<close>

definition latency_reset :: "rs_latency_t \<Rightarrow> rs_latency_t" where
  "latency_reset s = s\<lparr>interval := rs_interval_zero\<rparr>"

text \<open>
  Modelled from the spec: \<open>on_tick\<close> (section 4.5; the code is missing) returns a copy of
  the statistics as the snapshot and resets every LatencyStats of both directions.
\<close>

definition on_tick :: "rs_stats_t \<Rightarrow> rs_stats_t \<times> rs_stats_t" where
  "on_tick st =
     (st, st\<lparr>exchange := (\<lambda>c. latency_reset (exchange st c)),
             forward := (\<lambda>c. latency_reset (forward st c))\<rparr>)"

text \<open>Modelled from the spec: the key of a packet (the code that derives it is missing).\<close>

definition correlation_key_of :: "captured_packet \<Rightarrow> correlation_key" where
  "correlation_key_of p = (endpoints p, ident p)"

text \<open>
  Modelled from the spec: the OutstandingRequest that rule 1 of section 4.4 creates (the
  code is missing): pending, no retransmissions, its timer armed at the arrival of the
  request plus the configured timeout.
\<close>

definition new_request :: "rs_conf \<Rightarrow> captured_packet \<Rightarrow> 32 word \<Rightarrow> rs_request_t" where
  "new_request conf p n =
     \<lparr>req_id = n, event = Some (timestamp p + real_of_int (timeout conf)), pcap_in = source p,
      req_packet = p, req_linked = None, rt_req = 0, rt_rsp = 0, stats_req = code p,
      stats_rsp = None, forced_cleanup = False\<rparr>"

text \<open>
  Modelled from the spec: the transition rules 1 to 5 of the Correlator (section 4.4; the
  code is missing). A request-typed packet creates the entry of its key (rule 1), or is
  a retransmission when its fingerprint is that of the stored request, which increments
  \<open>rt_req\<close> and bumps the histogram and leaves the timer alone (rule 2), or reuses the
  identifier, which counts \<open>reused\<close> and replaces the entry by a fresh one (rule 3). A
  response-typed packet that finds the entry of its key links it: the latency, from the
  first-seen request, goes to the LatencyStats of the request's code and the entry
  leaves the table, its timer with it (rule 4); one that finds no entry is unlinked and
  creates none (rule 5). The optional per-code keep policy of rule 4 is not modelled: a
  linked entry always leaves the table, so every entry of the table is pending.
\<close>

definition on_packet :: "rs_conf \<Rightarrow> captured_packet \<Rightarrow> rs_state \<Rightarrow> rs_state" where
  "on_packet conf p st =
     (let k = correlation_key_of p in
      if is_request conf (code p) then
        (case request_table st k of
           None \<Rightarrow>
             st\<lparr>request_table := (request_table st)(k \<mapsto> new_request conf p (next_id st)),
                next_id := next_id st + 1\<rparr>
         | Some r \<Rightarrow>
             if fingerprint conf p = fingerprint conf (req_packet r) then
               st\<lparr>request_table := (request_table st)(k \<mapsto> r\<lparr>rt_req := rt_req r + 1\<rparr>),
                  stats := on_classification (stats_req r) Exchange (Retransmit (rt_req r + 1))
                             (stats st)\<rparr>
             else
               st\<lparr>request_table := (request_table st)(k \<mapsto> new_request conf p (next_id st)),
                  next_id := next_id st + 1,
                  stats := on_classification (code p) Exchange Reused (stats st)\<rparr>)
      else
        (case request_table st k of
           None \<Rightarrow> st\<lparr>stats := on_classification (code p) Exchange Unlinked (stats st)\<rparr>
         | Some r \<Rightarrow>
             st\<lparr>request_table := (request_table st)(k := None),
                stats := on_classification (stats_req r) Exchange
                           (Linked (timestamp p - timestamp (req_packet r))) (stats st)\<rparr>))"

text \<open>
  Modelled from the spec: the expiry of section 4.4 (the code is missing). The timer of
  the entry fires no earlier than its deadline; the entry, still pending, leaves the
  table and \<open>lost\<close> of its code is incremented unless \<open>forced_cleanup\<close> is set.
\<close>

definition on_expiry :: "correlation_key \<Rightarrow> real \<Rightarrow> rs_state \<Rightarrow> rs_state" where
  "on_expiry k now st =
     (case request_table st k of
        None \<Rightarrow> st
      | Some r \<Rightarrow>
          (case event r of
             None \<Rightarrow> st
           | Some deadline \<Rightarrow>
               if now < deadline then st
               else if forced_cleanup r then st\<lparr>request_table := (request_table st)(k := None)\<rparr>
               else st\<lparr>request_table := (request_table st)(k := None),
                       stats := on_classification (stats_req r) Exchange Lost (stats st)\<rparr>))"

text \<open>
  Modelled from the spec: eviction by policy (section 3; the code is missing): the entry
  is torn down with \<open>forced_cleanup\<close> set, so it leaves the table and counts neither as
  lost nor as linked.
\<close>

definition on_evict :: "correlation_key \<Rightarrow> rs_state \<Rightarrow> rs_state" where
  "on_evict k st = st\<lparr>request_table := (request_table st)(k := None)\<rparr>"

text \<open>
  Modelled from the spec: one turn of the single-threaded event loop (section 5; the
  code is missing), and a run of the loop over a sequence of events.
\<close>

fun rs_step :: "rs_conf \<Rightarrow> rs_state \<Rightarrow> rs_event \<Rightarrow> rs_state" where
  "rs_step conf st (Packet p) = on_packet conf p st"
| "rs_step conf st (Timer_Fired k now) = on_expiry k now st"
| "rs_step conf st (Evict k) = on_evict k st"
| "rs_step conf st Tick = st\<lparr>stats := snd (on_tick (stats st))\<rparr>"

text \<open>Modelled from the spec: a run of the event loop (the code is missing).\<close>

definition rs_run :: "rs_conf \<Rightarrow> rs_event list \<Rightarrow> rs_state \<Rightarrow> rs_state" where
  "rs_run conf evs st = foldl (rs_step conf) st evs"

text \<open>Modelled from the spec: the statistics at startup (the code is missing).\<close>

definition rs_stats_zero :: rs_stats_t where
  "rs_stats_zero =
     \<lparr>stats_intervals = 0, gauge = (\<lambda>c. 0), exchange = (\<lambda>c. rs_latency_zero),
      forward = (\<lambda>c. rs_latency_zero), quiet = 0\<rparr>"

text \<open>Modelled from the spec: the state at startup (the code is missing).\<close>

definition rs_init :: rs_state where
  "rs_init = \<lparr>request_table = Map.empty, stats = rs_stats_zero, next_id = 0\<rparr>"

text \<open>
  The invariant of the histogram: in both directions and for every code, \<^verbatim>\<open>rt\<close> has the
  length of its declaration.
\<close>

definition rt_sized :: "rs_stats_t \<Rightarrow> bool" where
  "rt_sized st \<longleftrightarrow>
     (\<forall>c. length (rt (interval (exchange st c))) = RS_RETRANSMIT_MAX + 1
        \<and> length (rt (interval (forward st c))) = RS_RETRANSMIT_MAX + 1)"

text \<open>
  A configuration and packets for the examples: the request codes of RADIUS
  (Access-Request 1, Accounting-Request 4), the default timeout, and the raw bytes as
  fingerprint.
\<close>

definition example_conf :: rs_conf where
  "example_conf =
     \<lparr>timeout = RS_DEFAULT_TIMEOUT, is_request = (\<lambda>c. c = 1 \<or> c = 4), fingerprint = raw\<rparr>"

definition example_packet :: "nat \<Rightarrow> nat \<Rightarrow> real \<Rightarrow> captured_packet" where
  "example_packet c i t =
     \<lparr>raw = [], timestamp = t, source = 0, code = c, ident = i,
      endpoints = ((1, 1812), (2, 1812))\<rparr>"

section \<open>Theorems about the ARP listener\<close>

lemma sizeof_arphdr_ether_ipv4_eq: "sizeof_arphdr_ether_ipv4 = 28"
  unfolding sizeof_arphdr_ether_ipv4_def by code_simp

lemma arp_member_offsets:
  "offsets_from 0 arphdr_ether_ipv4 = [0, 2, 4, 5, 6, 7, 13, 17, 23]"
  by (simp add: arphdr_ether_ipv4_def align_up_def Let_def)

lemma arp_member_reads:
  "ar_hrd ether_size frame = ntohs_at frame ether_size"
  "ar_pro ether_size frame = ntohs_at frame (ether_size + 2)"
  "ar_hln ether_size frame = frame ! (ether_size + 4)"
  "ar_pln ether_size frame = frame ! (ether_size + 5)"
  unfolding ar_hrd_def ar_pro_def ar_hln_def ar_pln_def arp_member_offset_def
    arp_member_offsets
  by simp_all

lemma unat_byte_eq_6: "unat b = 6 \<longleftrightarrow> b = 6" for b :: byte
  by (simp add: unat_arith_simps)

text \<open>
  C8. \<^verbatim>\<open>arp_socket_recv\<close> returns 0 and allocates no packet whenever the capture is
  shorter than the Ethernet header plus the 28 bytes of the ARP header, or the hardware
  format is not \<^verbatim>\<open>ARPHRD_ETHER\<close>, or the protocol format is not \<^verbatim>\<open>0x0800\<close>, or the
  hardware address length is not 6, or the protocol address length is not 4. A packet
  reaches \<^verbatim>\<open>request_receive\<close> only when the frame passed all five checks, and the
  result is 1 only when \<^verbatim>\<open>request_receive\<close> was given the packet and accepted it; the
  result is never anything but 0 or 1. The packet handed over has \<^verbatim>\<open>dst_port\<close> 1 and
  \<^verbatim>\<open>data_len\<close> the capture length; its data is the copy of the capture when
  \<^verbatim>\<open>talloc_memdup\<close> succeeded and \<^verbatim>\<open>NULL\<close> when it failed.
\<close>

theorem arp_socket_recv_validates:
  assumes "arp_socket_recv ether_size (rcode, frame) talloc_ok memdup_ok request_receive
             = (ret, effs)"
  shows "((length frame < ether_size + 28
            \<or> ntohs_at frame ether_size \<noteq> ARPHRD_ETHER
            \<or> ntohs_at frame (ether_size + 2) \<noteq> 0x0800
            \<or> frame ! (ether_size + 4) \<noteq> 6
            \<or> frame ! (ether_size + 5) \<noteq> 4)
           \<longrightarrow> ret = 0 \<and> Talloc_Zero \<notin> set effs \<and> Talloc_Memdup \<notin> set effs)
         \<and> ((\<exists>p. Request_Receive p \<in> set effs)
           \<longrightarrow> 0 < rcode \<and> ether_size + 28 \<le> length frame
               \<and> ntohs_at frame ether_size = ARPHRD_ETHER
               \<and> ntohs_at frame (ether_size + 2) = 0x0800
               \<and> frame ! (ether_size + 4) = 6
               \<and> frame ! (ether_size + 5) = 4)
         \<and> (ret = 1
           \<longrightarrow> (\<exists>p. effs = [Talloc_Zero, Talloc_Memdup, Log_Debug, Request_Receive p]
                  \<and> request_receive p
                  \<and> dst_port p = 1 \<and> data_len p = length frame
                  \<and> data p = (if memdup_ok then frame else [])))
         \<and> (ret = 0 \<or> ret = 1)"
  using assms
  unfolding arp_socket_recv_def arp_member_reads sizeof_arphdr_ether_ipv4_eq
    ETHER_ADDR_LEN_def unat_byte_eq_6
  by (auto simp: Let_def split: if_splits)

lemma arp_request_frame_reads:
  "length arp_request_frame = 42"
  "length (take 41 arp_request_frame) = 41"
  "ntohs_at arp_request_frame 14 = 1"
  "ntohs_at arp_request_frame 16 = 0x0800"
  "arp_request_frame ! 18 = 6"
  "arp_request_frame ! 19 = 4"
  by code_simp+

text \<open>
  The example frame is accepted, also when its copy fails (the packet then carries no
  data); the frame cut by one byte is dropped.
\<close>

theorem arp_socket_recv_validates_witness:
  "arp_socket_recv 14 (1, arp_request_frame) True True (\<lambda>p :: unit RADIUS_PACKET. True)
     = (1, [Talloc_Zero, Talloc_Memdup, Log_Debug,
            Request_Receive
              \<lparr>dst_port = 1, data_len = 42, data = arp_request_frame, vps = []\<rparr>])
   \<and> arp_socket_recv 14 (1, arp_request_frame) True False (\<lambda>p :: unit RADIUS_PACKET. True)
     = (1, [Talloc_Zero, Talloc_Memdup, Log_Debug,
            Request_Receive \<lparr>dst_port = 1, data_len = 42, data = [], vps = []\<rparr>])
   \<and> ntohs_at arp_request_frame 14 = ARPHRD_ETHER
   \<and> ntohs_at arp_request_frame (14 + 2) = 0x0800
   \<and> arp_request_frame ! (14 + 4) = 6
   \<and> arp_request_frame ! (14 + 5) = 4
   \<and> arp_socket_recv 14 (1, take 41 arp_request_frame) True True
       (\<lambda>p :: unit RADIUS_PACKET. True)
     = (0, [])"
proof -
  let ?rr = "\<lambda>p :: unit RADIUS_PACKET. True"
  let ?effs = "[Talloc_Zero, Talloc_Memdup, Log_Debug,
    Request_Receive \<lparr>dst_port = 1, data_len = 42, data = arp_request_frame, vps = []\<rparr>]"
  let ?nodata_effs = "[Talloc_Zero, Talloc_Memdup, Log_Debug,
    Request_Receive \<lparr>dst_port = 1, data_len = 42, data = [], vps = [] :: unit list\<rparr>]"
  have ok: "arp_socket_recv 14 (1, arp_request_frame) True True ?rr = (1, ?effs)"
    unfolding arp_socket_recv_def arp_member_reads sizeof_arphdr_ether_ipv4_eq
      ETHER_ADDR_LEN_def unat_byte_eq_6 ARPHRD_ETHER_def
    by (simp add: arp_request_frame_reads)
  have nodata: "arp_socket_recv 14 (1, arp_request_frame) True False ?rr = (1, ?nodata_effs)"
    unfolding arp_socket_recv_def arp_member_reads sizeof_arphdr_ether_ipv4_eq
      ETHER_ADDR_LEN_def unat_byte_eq_6 ARPHRD_ETHER_def
    by (simp add: arp_request_frame_reads)
  have e: "arp_socket_recv 14 (1, take 41 arp_request_frame) True True ?rr = (0, [])"
    unfolding arp_socket_recv_def sizeof_arphdr_ether_ipv4_eq
    by (simp add: arp_request_frame_reads)
  show ?thesis
    using arp_socket_recv_validates [OF ok] arp_socket_recv_validates [OF nodata]
      arp_socket_recv_validates [OF e] ok nodata e
    by simp
qed






text \<open>
  C10. \<^verbatim>\<open>arp_socket_parse\<close> returns -1, leaves the listener as it was and does nothing
  but log the error when the section has no \<^verbatim>\<open>interface\<close> pair or the pair has no
  value. When \<^verbatim>\<open>check_config\<close> is set it never opens the interface nor applies the
  \<^verbatim>\<open>arp\<close> filter, and once \<^verbatim>\<open>fr_pcap_init\<close> has given it a handle for the named
  interface it returns 0 with that handle stored and nothing else done.
\<close>

theorem arp_socket_parse_guards:
  assumes "arp_socket_parse env cs this = (ret, this', effs)"
  shows "((cf_pair_find env cs ''interface'' = None
            \<or> (\<exists>cp. cf_pair_find env cs ''interface'' = Some cp \<and> cf_pair_value env cp = None))
          \<longrightarrow> ret = - 1 \<and> this' = this
              \<and> (effs = [Cf_Log_Err Interface_Required] \<or> effs = [Cf_Log_Err No_Interface_Name]))
       \<and> (check_config env
          \<longrightarrow> Fr_Pcap_Open \<notin> set effs \<and> Fr_Pcap_Apply_Filter ''arp'' \<notin> set effs
              \<and> (\<forall>cp v h. cf_pair_find env cs ''interface'' = Some cp
                    \<and> cf_pair_value env cp = Some v \<and> fr_pcap_init env cs v = Some h
                  \<longrightarrow> ret = 0 \<and> effs = [Fr_Pcap_Init v]
                      \<and> this' = this\<lparr>listen_data :=
                           (listen_data this)\<lparr>interface := Some v, pcap := Some h\<rparr>\<rparr>))"
  using assms
  by (auto simp: arp_socket_parse_def Let_def split: option.splits if_splits prod.splits)

theorem arp_socket_parse_guards_witness:
  "arp_socket_parse (example_parse_env True) [(''type'', Some ''arp'')] example_listener
     = (- 1, example_listener, [Cf_Log_Err Interface_Required])
   \<and> arp_socket_parse (example_parse_env True) [(''interface'', None)] example_listener
     = (- 1, example_listener, [Cf_Log_Err No_Interface_Name])
   \<and> arp_socket_parse (example_parse_env True) [(''interface'', Some ''eth0'')] example_listener
     = (0, example_listener\<lparr>listen_data :=
             (listen_data example_listener)\<lparr>interface := Some ''eth0'', pcap := Some ''eth0''\<rparr>\<rparr>,
        [Fr_Pcap_Init ''eth0''])"
proof -
  let ?env = "example_parse_env True"
  obtain r1 t1 e1 where
    a: "arp_socket_parse ?env [(''type'', Some ''arp'')] example_listener = (r1, t1, e1)"
    using prod_cases3 by blast
  obtain r2 t2 e2 where
    b: "arp_socket_parse ?env [(''interface'', None)] example_listener = (r2, t2, e2)"
    using prod_cases3 by blast
  obtain r3 t3 e3 where
    c: "arp_socket_parse ?env [(''interface'', Some ''eth0'')] example_listener = (r3, t3, e3)"
    using prod_cases3 by blast
  have 1: "r1 = - 1 \<and> t1 = example_listener \<and> e1 = [Cf_Log_Err Interface_Required]"
    using arp_socket_parse_guards [OF a] a
    by (simp add: example_parse_env_def arp_socket_parse_def)
  have 2: "r2 = - 1 \<and> t2 = example_listener \<and> e2 = [Cf_Log_Err No_Interface_Name]"
    using arp_socket_parse_guards [OF b] b
    by (simp add: example_parse_env_def arp_socket_parse_def)
  have 3: "r3 = 0 \<and> e3 = [Fr_Pcap_Init ''eth0'']
      \<and> t3 = example_listener\<lparr>listen_data :=
             (listen_data example_listener)\<lparr>interface := Some ''eth0'', pcap := Some ''eth0''\<rparr>\<rparr>"
    using arp_socket_parse_guards [OF c]
    by (simp add: example_parse_env_def)
  show ?thesis
    using a b c 1 2 3 by simp
qed

section \<open>Theorems about the statistics\<close>

lemma rt_bucket_le: "rt_bucket r \<le> RS_RETRANSMIT_MAX"
  by (simp add: rt_bucket_def)

lemma latency_update_rt_length:
  "length (rt (interval (latency_update out s))) = length (rt (interval s))"
  by (cases out) (simp_all add: latency_update_def Let_def)

lemma rt_sized_on_classification:
  "rt_sized st \<Longrightarrow> rt_sized (on_classification c dir out st)"
  by (cases dir) (simp_all add: rt_sized_def on_classification_def latency_update_rt_length)

lemma rt_sized_on_tick: "rt_sized (snd (on_tick st))"
  by (simp add: rt_sized_def on_tick_def latency_reset_def rs_interval_zero_def)

lemma rt_sized_step: "rt_sized (stats st) \<Longrightarrow> rt_sized (stats (rs_step conf st ev))"
  by (cases ev)
     (auto simp: on_packet_def on_expiry_def on_evict_def Let_def rt_sized_on_classification
        rt_sized_on_tick split: option.splits)

lemma rt_sized_run: "rt_sized (stats st) \<Longrightarrow> rt_sized (stats (rs_run conf evs st))"
  unfolding rs_run_def by (induction evs arbitrary: st) (simp_all add: rt_sized_step)

lemma rt_sized_init: "rt_sized (stats rs_init)"
  by (simp add: rt_sized_def rs_init_def rs_stats_zero_def rs_latency_zero_def rs_interval_zero_def)

lemmas rs_eval_defs =
  rs_run_def on_packet_def on_classification_def latency_update_def new_request_def
  correlation_key_of_def example_conf_def example_packet_def rs_init_def rs_stats_zero_def
  rs_latency_zero_def rs_interval_zero_def RS_RETRANSMIT_MAX_def RS_DEFAULT_TIMEOUT_def
  rt_bucket_def Let_def

lemma replicate_numeral: "replicate (numeral k) x = x # replicate (pred_numeral k) x"
  by (simp add: numeral_eq_Suc)

text \<open>
  Eight identical requests: the first creates the entry, the seven retransmissions have
  the counts 1 to 7 and land in the buckets 1, 2, 3, 4, 5, 5 and 5.
\<close>

lemma eight_requests_histogram:
  "rt (interval (exchange (stats (rs_run example_conf
       (replicate 8 (Packet (example_packet 1 7 0))) rs_init)) 1)) = [0, 1, 1, 1, 1, 3]"
  by (simp add: rs_eval_defs replicate_numeral)

text \<open>
  C3. The bucket of a retransmit count \<open>r\<close> is \<open>min r RS_RETRANSMIT_MAX\<close>. In every
  state the event loop reaches from startup, the array \<^verbatim>\<open>rt\<close> of every LatencyStats has
  \<^verbatim>\<open>RS_RETRANSMIT_MAX + 1\<close> entries, so the bucket of any count, however large, is an
  index of the array, and recording the count increments that entry and writes nowhere
  else.
\<close>

theorem rt_bucket_in_bounds:
  "rt_bucket r = min (unat r) RS_RETRANSMIT_MAX
   \<and> length (rt (interval (exchange (stats (rs_run conf evs rs_init)) c))) = RS_RETRANSMIT_MAX + 1
   \<and> length (rt (interval (forward (stats (rs_run conf evs rs_init)) c))) = RS_RETRANSMIT_MAX + 1
   \<and> rt_bucket r < length (rt (interval (exchange (stats (rs_run conf evs rs_init)) c)))
   \<and> rt_bucket r < length (rt (interval (forward (stats (rs_run conf evs rs_init)) c)))
   \<and> rt (interval (latency_update (Retransmit r) s))
       = (rt (interval s))[rt_bucket r := rt (interval s) ! rt_bucket r + 1]"
proof -
  have "rt_sized (stats (rs_run conf evs rs_init))"
    by (rule rt_sized_run) (rule rt_sized_init)
  then have len:
    "length (rt (interval (exchange (stats (rs_run conf evs rs_init)) c))) = RS_RETRANSMIT_MAX + 1"
    "length (rt (interval (forward (stats (rs_run conf evs rs_init)) c))) = RS_RETRANSMIT_MAX + 1"
    by (simp_all add: rt_sized_def)
  have "rt_bucket r < RS_RETRANSMIT_MAX + 1"
    using rt_bucket_le [of r] by simp
  then show ?thesis
    using len by (simp add: rt_bucket_def latency_update_def Let_def)
qed

theorem rt_bucket_in_bounds_witness:
  "rt_bucket 7 = 5
   \<and> rt_bucket 7 < length (rt (interval (exchange (stats (rs_run example_conf
         (replicate 8 (Packet (example_packet 1 7 0))) rs_init)) 1)))
   \<and> rt (interval (exchange (stats (rs_run example_conf
         (replicate 8 (Packet (example_packet 1 7 0))) rs_init)) 1)) = [0, 1, 1, 1, 1, 3]"
  using rt_bucket_in_bounds
    [of 7 example_conf "replicate 8 (Packet (example_packet 1 7 0))" 1 rs_latency_zero]
    eight_requests_histogram
  by (simp add: RS_RETRANSMIT_MAX_def)

lemma on_packet_unlinked:
  assumes "\<not> is_request conf (code p)" "request_table st (correlation_key_of p) = None"
  shows "on_packet conf p st = st\<lparr>stats := on_classification (code p) Exchange Unlinked (stats st)\<rparr>"
  using assms by (simp add: on_packet_def)

lemma unlinked_on_classification:
  "unlinked (interval (exchange (on_classification c' Exchange Unlinked st) c))
     = unlinked (interval (exchange st c)) + (if c' = c then 1 else 0)"
  by (simp add: on_classification_def latency_update_def Let_def)

lemma rs_run_unlinked:
  assumes "\<forall>p \<in> set ps. \<not> is_request conf (code p) \<and> request_table st (correlation_key_of p) = None"
  shows "request_table (rs_run conf (map Packet ps) st) = request_table st
       \<and> next_id (rs_run conf (map Packet ps) st) = next_id st
       \<and> (\<forall>c. unlinked (interval (exchange (stats (rs_run conf (map Packet ps) st)) c))
              = unlinked (interval (exchange (stats st) c))
                  + of_nat (length (filter (\<lambda>p. code p = c) ps)))"
  using assms
proof (induction ps arbitrary: st)
  case Nil
  then show ?case by (simp add: rs_run_def)
next
  case (Cons p ps)
  let ?st = "st\<lparr>stats := on_classification (code p) Exchange Unlinked (stats st)\<rparr>"
  have step: "on_packet conf p st = ?st"
    using Cons.prems by (simp add: on_packet_unlinked)
  have "\<forall>q \<in> set ps. \<not> is_request conf (code q) \<and> request_table ?st (correlation_key_of q) = None"
    using Cons.prems by simp
  from Cons.IH [OF this] show ?case
    by (simp add: rs_run_def step unlinked_on_classification)
qed

text \<open>
  C4. Let every packet of a sequence be response-typed and find no pending request of
  its key in the table. Processing the sequence leaves the table as it was and creates
  no request, and \<open>unlinked\<close> of every code grows by the number of packets of that code:
  by exactly N when the N packets have one code.
\<close>

theorem unlinked_responses_counted:
  assumes "\<forall>p \<in> set ps. \<not> is_request conf (code p) \<and> request_table st (correlation_key_of p) = None"
  shows "request_table (rs_run conf (map Packet ps) st) = request_table st
       \<and> next_id (rs_run conf (map Packet ps) st) = next_id st
       \<and> (\<forall>c. unlinked (interval (exchange (stats (rs_run conf (map Packet ps) st)) c))
              = unlinked (interval (exchange (stats st) c))
                  + of_nat (length (filter (\<lambda>p. code p = c) ps)))
       \<and> (\<forall>c. (\<forall>p \<in> set ps. code p = c) \<longrightarrow>
              unlinked (interval (exchange (stats (rs_run conf (map Packet ps) st)) c))
              = unlinked (interval (exchange (stats st) c)) + of_nat (length ps))"
proof -
  have "length (filter (\<lambda>p. code p = c) ps) = length ps" if "\<forall>p \<in> set ps. code p = c" for c
    using that by (induction ps) auto
  then show ?thesis
    using rs_run_unlinked [OF assms] by simp
qed

theorem unlinked_responses_counted_witness:
  "request_table (rs_run example_conf
       (map Packet [example_packet 2 7 0, example_packet 2 8 1, example_packet 2 7 2]) rs_init)
     = Map.empty
   \<and> next_id (rs_run example_conf
       (map Packet [example_packet 2 7 0, example_packet 2 8 1, example_packet 2 7 2]) rs_init)
     = 0
   \<and> unlinked (interval (exchange (stats (rs_run example_conf
       (map Packet [example_packet 2 7 0, example_packet 2 8 1, example_packet 2 7 2]) rs_init))
         2)) = 3"
proof -
  let ?ps = "[example_packet 2 7 0, example_packet 2 8 1, example_packet 2 7 2]"
  have responses: "\<forall>p \<in> set ?ps. \<not> is_request example_conf (code p)
      \<and> request_table rs_init (correlation_key_of p) = None"
    by (simp add: example_conf_def example_packet_def rs_init_def)
  have one_code: "\<forall>p \<in> set ?ps. code p = 2"
    by (simp add: example_packet_def)
  show ?thesis
    using unlinked_responses_counted [OF responses] one_code
    by (simp add: rs_init_def rs_stats_zero_def rs_latency_zero_def rs_interval_zero_def)
qed

end
